theory Spec2Isabelle
  imports Main "HOL-Library.Word" "HOL-Library.Multiset"
begin

section \<open>Text-to-text dialogue examples: the data model\<close>

text \<open>
  The module \<^verbatim>\<open>state_tracking/utils/text_to_text_utils.py\<close> holds a dataclass
  \<^verbatim>\<open>TextToTextExample\<close>, a writer \<^verbatim>\<open>write_data\<close> and a parse
  specification \<^verbatim>\<open>decode_fn\<close>.

  A Python \<^verbatim>\<open>str\<close> is a sequence of Unicode code points; it is a list of naturals
  here, so that \<^verbatim>\<open>str.encode('utf-8')\<close> has something to encode. Python's
  \<^verbatim>\<open>bytes\<close> is a list of 8-bit words. Paths and the literal feature names are
  \<open>string\<close>s. Python's \<^verbatim>\<open>int\<close> is \<open>int\<close>.
\<close>

type_synonym pystr = "nat list"

type_synonym bytes = "8 word list"

definition ascii :: "string \<Rightarrow> pystr" where
  "ascii s = map of_char s"

datatype py_error =
    TypeError
  | UnicodeEncodeError
  | ValueError
  | OpError
  | InvalidArgumentError

record TextToTextExample =
  src :: pystr
  tgt :: pystr
  dialog_id :: pystr
  turn :: int
  frame :: int

text \<open>
  The constructor that \<^verbatim>\<open>@dataclasses.dataclass\<close> generates is
  \<^verbatim>\<open>__init__(self, src, tgt, dialog_id, turn, frame=0)\<close>. An argument the caller
  leaves out is \<open>None\<close> here. Python raises \<^verbatim>\<open>TypeError\<close> when a parameter
  without a default is left out, and takes the default for \<^verbatim>\<open>frame\<close>.
\<close>

definition TextToTextExample_init ::
  "pystr option \<Rightarrow> pystr option \<Rightarrow> pystr option \<Rightarrow> int option \<Rightarrow> int option
     \<Rightarrow> py_error + TextToTextExample" where
  "TextToTextExample_init a_src a_tgt a_dialog_id a_turn a_frame =
     (case (a_src, a_tgt, a_dialog_id, a_turn) of
        (Some s, Some t, Some d, Some n) \<Rightarrow>
          Inr \<lparr>src = s, tgt = t, dialog_id = d, turn = n,
               frame = (case a_frame of None \<Rightarrow> 0 | Some f \<Rightarrow> f)\<rparr>
      | _ \<Rightarrow> Inl TypeError)"

section \<open>The library calls of the writer and the decoder\<close>

subsection \<open>UTF-8\<close>

text \<open>
  \<^verbatim>\<open>s.encode('utf-8')\<close> encodes code point by code point and raises
  \<^verbatim>\<open>UnicodeEncodeError\<close> at a surrogate (U+D800 to U+DFFF). No Python string holds
  a value from 0x110000 on; the model refuses such a value too.
\<close>

definition encode_code_point :: "nat \<Rightarrow> py_error + bytes" where
  "encode_code_point c =
     (if c < 0x80 then Inr [of_nat c]
      else if c < 0x800 then Inr [of_nat (0xC0 + c div 64), of_nat (0x80 + c mod 64)]
      else if 0xD800 \<le> c \<and> c \<le> 0xDFFF then Inl UnicodeEncodeError
      else if c < 0x10000 then
        Inr [of_nat (0xE0 + c div 4096), of_nat (0x80 + c div 64 mod 64),
             of_nat (0x80 + c mod 64)]
      else if c < 0x110000 then
        Inr [of_nat (0xF0 + c div 262144), of_nat (0x80 + c div 4096 mod 64),
             of_nat (0x80 + c div 64 mod 64), of_nat (0x80 + c mod 64)]
      else Inl UnicodeEncodeError)"

fun utf8_encode :: "pystr \<Rightarrow> py_error + bytes" where
  "utf8_encode [] = Inr []"
| "utf8_encode (c # cs) =
     (case encode_code_point c of
        Inl err \<Rightarrow> Inl err
      | Inr bs \<Rightarrow> (case utf8_encode cs of Inl err \<Rightarrow> Inl err | Inr rest \<Rightarrow> Inr (bs @ rest)))"

text \<open>
  The reader's side, \<^verbatim>\<open>b.decode('utf-8')\<close>: strict decoding, which refuses
  stray continuation bytes, truncated and overlong sequences, surrogates and values
  beyond U+10FFFF. The properties of the round trip are stated with it.
\<close>

definition continuation :: "8 word \<Rightarrow> bool" where
  "continuation b = (0x80 \<le> unat b \<and> unat b < 0xC0)"

fun utf8_decode :: "bytes \<Rightarrow> pystr option" where
  "utf8_decode [] = Some []"
| "utf8_decode (b0 # bs) =
     (if unat b0 < 0x80 then map_option ((#) (unat b0)) (utf8_decode bs)
      else if unat b0 < 0xC2 then None
      else if unat b0 < 0xE0 then
        (case bs of
           b1 # bs' \<Rightarrow>
             if continuation b1
             then map_option ((#) ((unat b0 - 0xC0) * 64 + (unat b1 - 0x80))) (utf8_decode bs')
             else None
         | _ \<Rightarrow> None)
      else if unat b0 < 0xF0 then
        (case bs of
           b1 # b2 # bs' \<Rightarrow>
             (let c = (unat b0 - 0xE0) * 4096 + (unat b1 - 0x80) * 64 + (unat b2 - 0x80)
              in if continuation b1 \<and> continuation b2 \<and> 0x800 \<le> c
                    \<and> \<not> (0xD800 \<le> c \<and> c \<le> 0xDFFF)
                 then map_option ((#) c) (utf8_decode bs') else None)
         | _ \<Rightarrow> None)
      else if unat b0 < 0xF5 then
        (case bs of
           b1 # b2 # b3 # bs' \<Rightarrow>
             (let c = (unat b0 - 0xF0) * 262144 + (unat b1 - 0x80) * 4096
                      + (unat b2 - 0x80) * 64 + (unat b3 - 0x80)
              in if continuation b1 \<and> continuation b2 \<and> continuation b3
                    \<and> 0x10000 \<le> c \<and> c < 0x110000
                 then map_option ((#) c) (utf8_decode bs') else None)
         | _ \<Rightarrow> None)
      else None)"

subsection \<open>tf.train.Example\<close>

text \<open>
  A \<^verbatim>\<open>tf.train.Feature\<close> holds one of a \<^verbatim>\<open>BytesList\<close>, a
  \<^verbatim>\<open>FloatList\<close> (32-bit floats, kept as bit patterns) or an \<^verbatim>\<open>Int64List\<close>.
  A \<^verbatim>\<open>tf.train.Example\<close> is a map from feature names to features.

  The protocol-buffer wire encoding is the library's own and lossless on messages, and
  TFRecord framing gives each record back whole. A serialized record is therefore
  represented by the message it encodes; byte strings that encode no
  \<^verbatim>\<open>Example\<close> are outside the model.
\<close>

datatype feature =
    BytesList "bytes list"
  | FloatList "32 word list"
  | Int64List "64 word list"

type_synonym tf_example = "string \<rightharpoonup> feature"

datatype record_bytes = Serialized tf_example

definition SerializeToString :: "tf_example \<Rightarrow> record_bytes" where
  "SerializeToString ex = Serialized ex"

definition bytes_feature :: "bytes \<Rightarrow> feature" where
  "bytes_feature v = BytesList [v]"

text \<open>
  \<^verbatim>\<open>Int64List(value=[v])\<close> raises \<^verbatim>\<open>ValueError\<close> for a Python integer that
  does not fit in 64 signed bits.
\<close>

definition int64_feature :: "int \<Rightarrow> py_error + feature" where
  "int64_feature v =
     (if - (2 ^ 63) \<le> v \<and> v < 2 ^ 63 then Inr (Int64List [word_of_int v])
      else Inl ValueError)"

subsection \<open>tf.io.parse_single_example\<close>

text \<open>
  The documented behaviour of \<^verbatim>\<open>tf.io.parse_single_example\<close>:
  a \<^verbatim>\<open>VarLenFeature\<close> gives a sparse tensor of the feature's values, empty when
  the feature is missing; a \<^verbatim>\<open>FixedLenFeature\<close> without a default value is
  required, and the number of its values must be that of its shape; a feature of
  another type than the one declared is an error; features of the record that the
  schema does not name are ignored. Every failure is an
  \<^verbatim>\<open>InvalidArgumentError\<close>.
\<close>

datatype dtype = DT_STRING | DT_FLOAT | DT_INT64

datatype feature_spec =
    VarLenFeature dtype
  | FixedLenFeature "nat list" dtype

datatype tf_values =
    Strings "bytes list"
  | Floats "32 word list"
  | Int64s "64 word list"

datatype tensor =
    SparseTensor tf_values
  | Tensor "nat list" tf_values

fun feature_values :: "feature \<Rightarrow> tf_values" where
  "feature_values (BytesList vs) = Strings vs"
| "feature_values (FloatList vs) = Floats vs"
| "feature_values (Int64List vs) = Int64s vs"

fun dtype_of :: "tf_values \<Rightarrow> dtype" where
  "dtype_of (Strings vs) = DT_STRING"
| "dtype_of (Floats vs) = DT_FLOAT"
| "dtype_of (Int64s vs) = DT_INT64"

fun num_values :: "tf_values \<Rightarrow> nat" where
  "num_values (Strings vs) = length vs"
| "num_values (Floats vs) = length vs"
| "num_values (Int64s vs) = length vs"

fun no_values :: "dtype \<Rightarrow> tf_values" where
  "no_values DT_STRING = Strings []"
| "no_values DT_FLOAT = Floats []"
| "no_values DT_INT64 = Int64s []"

fun parse_feature :: "feature option \<Rightarrow> feature_spec \<Rightarrow> py_error + tensor" where
  "parse_feature None (VarLenFeature dt) = Inr (SparseTensor (no_values dt))"
| "parse_feature (Some f) (VarLenFeature dt) =
     (if dtype_of (feature_values f) = dt then Inr (SparseTensor (feature_values f))
      else Inl InvalidArgumentError)"
| "parse_feature None (FixedLenFeature shape dt) = Inl InvalidArgumentError"
| "parse_feature (Some f) (FixedLenFeature shape dt) =
     (if dtype_of (feature_values f) \<noteq> dt then Inl InvalidArgumentError
      else if num_values (feature_values f) \<noteq> prod_list shape then Inl InvalidArgumentError
      else Inr (Tensor shape (feature_values f)))"

fun parse_features ::
  "tf_example \<Rightarrow> (string \<times> feature_spec) list \<Rightarrow> py_error + (string \<rightharpoonup> tensor)" where
  "parse_features ex [] = Inr Map.empty"
| "parse_features ex ((name, spec) # rest) =
     (case parse_feature (ex name) spec of
        Inl err \<Rightarrow> Inl err
      | Inr t \<Rightarrow>
          (case parse_features ex rest of
             Inl err \<Rightarrow> Inl err
           | Inr parsed \<Rightarrow> Inr (parsed(name \<mapsto> t))))"

fun parse_single_example ::
  "record_bytes \<Rightarrow> (string \<times> feature_spec) list \<Rightarrow> py_error + (string \<rightharpoonup> tensor)" where
  "parse_single_example (Serialized ex) features = parse_features ex features"

section \<open>The decoder\<close>

definition decode_fn :: "record_bytes \<Rightarrow> py_error + (string \<rightharpoonup> tensor)" where
  "decode_fn record_bytes =
     parse_single_example record_bytes
       [(''input'', VarLenFeature DT_STRING),
        (''value'', VarLenFeature DT_STRING),
        (''dialog_id'', VarLenFeature DT_STRING),
        (''turn'', FixedLenFeature [] DT_INT64)]"

section \<open>The writer\<close>

subsection \<open>os.path\<close>

text \<open>
  \<^verbatim>\<open>os.path\<close> is \<^verbatim>\<open>posixpath\<close>:
  \<^verbatim>\<open>
  def dirname(p):
      i = p.rfind('/') + 1
      head = p[:i]
      if head and head != '/'*len(head):
          head = head.rstrip('/')
      return head

  def basename(p):
      i = p.rfind('/') + 1
      return p[i:]
  \<close>
  \<^verbatim>\<open>rfind\<close> gives the index of the last occurrence, or -1.
\<close>

definition rfind :: "string \<Rightarrow> char \<Rightarrow> int" where
  "rfind p c = int (length (dropWhile (\<lambda>x. x \<noteq> c) (rev p))) - 1"

definition rstrip :: "string \<Rightarrow> char \<Rightarrow> string" where
  "rstrip p c = rev (dropWhile (\<lambda>x. x = c) (rev p))"

definition dirname :: "string \<Rightarrow> string" where
  "dirname p =
     (let i = nat (rfind p CHR ''/'' + 1);
          head = take i p
      in if head \<noteq> [] \<and> head \<noteq> replicate (length head) CHR ''/''
         then rstrip head CHR ''/'' else head)"

definition basename :: "string \<Rightarrow> string" where
  "basename p = (let i = nat (rfind p CHR ''/'' + 1) in drop i p)"

subsection \<open>The files, the directories and the log\<close>

text \<open>
  What the writer acts on: the directories that exist (by path; the empty path is the
  working directory, a path of slashes only is the root, and both always exist), the
  record files (each a sequence of records, in the order a reader gets them), and the
  lines logged (the base name and the count of \<^verbatim>\<open>tf.logging.info\<close>).
  A call that raises gives \<open>Inl\<close>; the state it leaves behind is not followed.
\<close>

record world =
  dirs :: "string set"
  files :: "string \<rightharpoonup> record_bytes list"
  log :: "(string \<times> nat) list"

definition is_root :: "string \<Rightarrow> bool" where
  "is_root d = (d \<noteq> [] \<and> d = replicate (length d) CHR ''/'')"

definition isdir :: "world \<Rightarrow> string \<Rightarrow> bool" where
  "isdir w d = (d = [] \<or> is_root d \<or> d \<in> dirs w)"

text \<open>
  \<^verbatim>\<open>tf.io.TFRecordWriter(path)\<close> creates the file, or truncates it. It raises when
  the path names a directory or has no directory to stand in. \<^verbatim>\<open>write\<close> appends
  one record.
\<close>

definition TFRecordWriter :: "string \<Rightarrow> world \<Rightarrow> py_error + world" where
  "TFRecordWriter path w =
     (if basename path = [] \<or> path \<in> dirs w \<or> \<not> isdir w (dirname path) then Inl OpError
      else Inr (w\<lparr>files := (files w)(path \<mapsto> [])\<rparr>))"

definition writer_write :: "string \<Rightarrow> record_bytes \<Rightarrow> world \<Rightarrow> world" where
  "writer_write path r w =
     w\<lparr>files := (files w)(path \<mapsto> (case files w path of None \<Rightarrow> [r] | Some rs \<Rightarrow> rs @ [r]))\<rparr>"

definition logging_info :: "string \<Rightarrow> nat \<Rightarrow> world \<Rightarrow> world" where
  "logging_info name n w = w\<lparr>log := log w @ [(name, n)]\<rparr>"

subsection \<open>Directory creation\<close>

text \<open>
  \<^verbatim>\<open>tf.io.gfile.makedirs\<close> reaches the storage through the filesystem registered for
  the path, so the writer takes the call as a parameter. The reference one is the local
  filesystem's, after its documentation: it creates the directory and all the missing
  ones above it, succeeds when the directory exists already, has nothing to create for
  the empty path, and fails when a regular file is in the way.
\<close>

type_synonym makedirs_fn = "string \<Rightarrow> world \<Rightarrow> py_error + world"

lemma take_rfind:
  "take (nat (rfind p c + 1)) p = rev (dropWhile (\<lambda>x. x \<noteq> c) (rev p))"
proof -
  have "rev p = takeWhile (\<lambda>x. x \<noteq> c) (rev p) @ dropWhile (\<lambda>x. x \<noteq> c) (rev p)"
    by simp
  then have "p = rev (dropWhile (\<lambda>x. x \<noteq> c) (rev p)) @ rev (takeWhile (\<lambda>x. x \<noteq> c) (rev p))"
    by (metis rev_append rev_rev_ident)
  then have "take (length (rev (dropWhile (\<lambda>x. x \<noteq> c) (rev p)))) p
             = rev (dropWhile (\<lambda>x. x \<noteq> c) (rev p))"
    by (metis append_eq_conv_conj)
  then show ?thesis by (simp add: rfind_def)
qed


lemma rstrip_shorter:
  assumes "p \<noteq> []" and "last p = c"
  shows "length (rstrip p c) < length p"
proof -
  obtain x xs where r: "rev p = x # xs" using assms(1) by (cases "rev p") auto
  then have "x = c" using assms by (metis hd_rev list.sel(1))
  then have "length (dropWhile (\<lambda>x. x = c) (rev p)) \<le> length xs"
    using r by (simp add: length_dropWhile_le)
  moreover have "length p = Suc (length xs)"
    using r by (metis length_rev length_Cons)
  ultimately show ?thesis by (simp add: rstrip_def)
qed

lemma dirname_shorter:
  assumes "d \<noteq> []" and "\<not> is_root d"
  shows "length (dirname d) < length d"
proof -
  define head where "head = take (nat (rfind d CHR ''/'' + 1)) d"
  have dn: "dirname d = (if head \<noteq> [] \<and> head \<noteq> replicate (length head) CHR ''/''
                         then rstrip head CHR ''/'' else head)"
    by (simp add: dirname_def head_def Let_def)
  have hl: "length head \<le> length d" by (simp add: head_def)
  have hr: "head = rev (dropWhile (\<lambda>x. x \<noteq> CHR ''/'') (rev d))"
    unfolding head_def by (rule take_rfind)
  show ?thesis
  proof (cases "head = []")
    case True
    then show ?thesis using dn assms(1) by simp
  next
    case False
    then have "dropWhile (\<lambda>x. x \<noteq> CHR ''/'') (rev d) \<noteq> []" using hr by simp
    then have "hd (dropWhile (\<lambda>x. x \<noteq> CHR ''/'') (rev d)) = CHR ''/''"
      using hd_dropWhile [of "\<lambda>x. x \<noteq> CHR ''/''" "rev d"] by simp
    then have lh: "last head = CHR ''/''"
      using hr \<open>dropWhile (\<lambda>x. x \<noteq> CHR ''/'') (rev d) \<noteq> []\<close> by (simp add: last_rev)
    show ?thesis
    proof (cases "head = replicate (length head) CHR ''/''")
      case True
      have "head \<noteq> d"
        using True assms False by (auto simp: is_root_def)
      then have "length head < length d"
        using hl unfolding head_def by (metis take_all_iff le_neq_implies_less length_take min.absorb2 nat_le_linear)
      then show ?thesis using dn True by simp
    next
      case nr: False
      have "length (rstrip head CHR ''/'') < length head"
        using False lh by (rule rstrip_shorter)
      then show ?thesis using dn nr False hl by simp
    qed
  qed
qed

function gfile_makedirs :: makedirs_fn where
  "gfile_makedirs d w =
     (if d = [] \<or> is_root d then Inr w
      else if files w d \<noteq> None then Inl OpError
      else if d \<in> dirs w then Inr w
      else (case gfile_makedirs (dirname d) w of
              Inl err \<Rightarrow> Inl err
            | Inr w' \<Rightarrow> Inr (w'\<lparr>dirs := insert d (dirs w')\<rparr>)))"
  by pat_completeness auto

termination
  by (relation "measure (\<lambda>(d, w). length d)") (auto simp: dirname_shorter)

declare gfile_makedirs.simps [simp del]

subsection \<open>random.shuffle\<close>

text \<open>
  \<^verbatim>\<open>
  def shuffle(self, x):
      randbelow = self._randbelow
      for i in reversed(range(1, len(x))):
          j = randbelow(i + 1)
          x[i], x[j] = x[j], x[i]
  \<close>
  The random source is a parameter: \<open>rnd n\<close> is what the generator draws at the call
  \<^verbatim>\<open>randbelow(n)\<close>, reduced below \<open>n\<close>, so that every function is a generator.
  The list is shuffled in place, so the model returns the caller's list after the call.
\<close>

type_synonym random_source = "nat \<Rightarrow> nat"

definition randbelow :: "random_source \<Rightarrow> nat \<Rightarrow> nat" where
  "randbelow rnd n = rnd n mod n"

fun shuffle_from :: "random_source \<Rightarrow> nat \<Rightarrow> 'a list \<Rightarrow> 'a list" where
  "shuffle_from rnd 0 x = x"
| "shuffle_from rnd (Suc k) x =
     (let i = Suc k;
          j = randbelow rnd (i + 1)
      in shuffle_from rnd k (x[i := x ! j, j := x ! i]))"

definition random_shuffle :: "random_source \<Rightarrow> 'a list \<Rightarrow> 'a list" where
  "random_shuffle rnd x = shuffle_from rnd (length x - 1) x"

subsection \<open>write_data\<close>

text \<open>
  The dictionary of the four features is built in the order of the source, so the first
  field that cannot be encoded decides the exception.
\<close>

definition make_tf_example :: "TextToTextExample \<Rightarrow> py_error + tf_example" where
  "make_tf_example example =
     (case utf8_encode (src example) of
        Inl err \<Rightarrow> Inl err
      | Inr s \<Rightarrow>
     (case utf8_encode (tgt example) of
        Inl err \<Rightarrow> Inl err
      | Inr t \<Rightarrow>
     (case utf8_encode (dialog_id example) of
        Inl err \<Rightarrow> Inl err
      | Inr d \<Rightarrow>
     (case int64_feature (turn example) of
        Inl err \<Rightarrow> Inl err
      | Inr n \<Rightarrow>
          Inr [''input'' \<mapsto> bytes_feature s,
               ''value'' \<mapsto> bytes_feature t,
               ''dialog_id'' \<mapsto> bytes_feature d,
               ''turn'' \<mapsto> n]))))"

definition serialize_example :: "TextToTextExample \<Rightarrow> py_error + record_bytes" where
  "serialize_example example =
     (case make_tf_example example of
        Inl err \<Rightarrow> Inl err
      | Inr tf_example \<Rightarrow> Inr (SerializeToString tf_example))"

fun write_examples :: "string \<Rightarrow> TextToTextExample list \<Rightarrow> world \<Rightarrow> py_error + world" where
  "write_examples path [] w = Inr w"
| "write_examples path (example # examples) w =
     (case serialize_example example of
        Inl err \<Rightarrow> Inl err
      | Inr r \<Rightarrow> write_examples path examples (writer_write path r w))"

text \<open>
  \<open>write_data\<close> returns the caller's list as the call leaves it, with the world.
\<close>

definition write_data ::
  "makedirs_fn \<Rightarrow> random_source \<Rightarrow> TextToTextExample list \<Rightarrow> string \<Rightarrow> bool \<Rightarrow> world
     \<Rightarrow> py_error + (TextToTextExample list \<times> world)" where
  "write_data makedirs rnd examples output_path shuffle w =
     (case makedirs (dirname output_path) w of
        Inl err \<Rightarrow> Inl err
      | Inr w1 \<Rightarrow>
          (let examples' = (if shuffle then random_shuffle rnd examples else examples)
           in case TFRecordWriter output_path w1 of
                Inl err \<Rightarrow> Inl err
              | Inr w2 \<Rightarrow>
                  (case write_examples output_path examples' w2 of
                     Inl err \<Rightarrow> Inl err
                   | Inr w3 \<Rightarrow>
                       Inr (examples',
                            logging_info (basename output_path) (length examples') w3))))"

section \<open>Reading a file back\<close>

text \<open>
  What a reader recovers from one record: it decodes the record with \<open>decode_fn\<close>,
  takes the one string of each of the three sparse tensors, decoded as UTF-8, and the
  scalar \<^verbatim>\<open>turn\<close> as a signed integer. The claims on what is recoverable from a
  file are stated with it, against the four fields of an example that go on the wire.
\<close>

fun single_string :: "tensor option \<Rightarrow> pystr option" where
  "single_string (Some (SparseTensor (Strings [b]))) = utf8_decode b"
| "single_string _ = None"

fun scalar_int :: "tensor option \<Rightarrow> int option" where
  "scalar_int (Some (Tensor [] (Int64s [n]))) = Some (sint n)"
| "scalar_int _ = None"

definition decoded_fields :: "(string \<rightharpoonup> tensor) \<Rightarrow> (pystr \<times> pystr \<times> pystr \<times> int) option" where
  "decoded_fields d =
     (case (single_string (d ''input''), single_string (d ''value''),
            single_string (d ''dialog_id''), scalar_int (d ''turn'')) of
        (Some i, Some v, Some di, Some n) \<Rightarrow> Some (i, v, di, n)
      | _ \<Rightarrow> None)"

definition read_record :: "record_bytes \<Rightarrow> (pystr \<times> pystr \<times> pystr \<times> int) option" where
  "read_record r = (case decode_fn r of Inl err \<Rightarrow> None | Inr d \<Rightarrow> decoded_fields d)"

definition wire_fields :: "TextToTextExample \<Rightarrow> pystr \<times> pystr \<times> pystr \<times> int" where
  "wire_fields example = (src example, tgt example, dialog_id example, turn example)"

text \<open>
  A string is UTF-8-encodable when \<^verbatim>\<open>encode\<close> does not raise; an integer fits
  the wire when \<^verbatim>\<open>Int64List\<close> takes it.
\<close>

definition utf8_encodable :: "pystr \<Rightarrow> bool" where
  "utf8_encodable s = (case utf8_encode s of Inl err \<Rightarrow> False | Inr bs \<Rightarrow> True)"

definition fits_int64 :: "int \<Rightarrow> bool" where
  "fits_int64 v = (- (2 ^ 63) \<le> v \<and> v < 2 ^ 63)"

section \<open>Conditions on a record\<close>

text \<open>
  The condition of the schema claim, in the words of the specification: the record
  holds exactly the four fields \<^verbatim>\<open>input\<close>, \<^verbatim>\<open>value\<close>, \<^verbatim>\<open>dialog_id\<close> (strings)
  and \<^verbatim>\<open>turn\<close> (64-bit integer), with those types.
\<close>

fun is_bytes_list :: "feature option \<Rightarrow> bool" where
  "is_bytes_list (Some (BytesList vs)) = True"
| "is_bytes_list _ = False"

fun is_int64_list :: "feature option \<Rightarrow> bool" where
  "is_int64_list (Some (Int64List vs)) = True"
| "is_int64_list _ = False"

fun exactly_four_fields :: "record_bytes \<Rightarrow> bool" where
  "exactly_four_fields (Serialized ex) =
     (dom ex = {''input'', ''value'', ''dialog_id'', ''turn''}
      \<and> is_bytes_list (ex ''input'') \<and> is_bytes_list (ex ''value'')
      \<and> is_bytes_list (ex ''dialog_id'') \<and> is_int64_list (ex ''turn''))"

text \<open>
  What \<open>decode_fn\<close> refuses: a feature present with another type than the schema's,
  and a \<^verbatim>\<open>turn\<close> that is not one 64-bit integer.
\<close>

fun wrong_type :: "dtype \<Rightarrow> feature option \<Rightarrow> bool" where
  "wrong_type dt None = False"
| "wrong_type dt (Some f) = (dtype_of (feature_values f) \<noteq> dt)"

fun one_int64 :: "feature option \<Rightarrow> bool" where
  "one_int64 (Some (Int64List [n])) = True"
| "one_int64 _ = False"

fun values_or_none :: "dtype \<Rightarrow> feature option \<Rightarrow> tf_values" where
  "values_or_none dt None = no_values dt"
| "values_or_none dt (Some f) = feature_values f"

section \<open>Concrete inputs\<close>

text \<open>Concrete inputs, for the instances of the theorems below.\<close>

definition example_hi :: TextToTextExample where
  "example_hi = \<lparr>src = ascii ''hi'', tgt = ascii ''hello'', dialog_id = ascii ''d1'',
                  turn = 0, frame = 0\<rparr>"

definition example_bye :: TextToTextExample where
  "example_bye = \<lparr>src = ascii ''bye'', tgt = [0x61, 0xE9, 0x20AC, 0x1F600],
                   dialog_id = ascii ''d1'', turn = 1, frame = 2\<rparr>"

definition empty_world :: world where
  "empty_world = \<lparr>dirs = {}, files = Map.empty, log = []\<rparr>"

definition record_hi :: record_bytes where
  "record_hi = Serialized [''input'' \<mapsto> BytesList [[104, 105]],
                          ''value'' \<mapsto> BytesList [[104, 101, 108, 108, 111]],
                          ''dialog_id'' \<mapsto> BytesList [[100, 49]],
                          ''turn'' \<mapsto> Int64List [0]]"

definition record_bye :: record_bytes where
  "record_bye = Serialized [''input'' \<mapsto> BytesList [[98, 121, 101]],
                           ''value'' \<mapsto> BytesList [[97, 195, 169, 226, 130, 172,
                                                        240, 159, 152, 128]],
                           ''dialog_id'' \<mapsto> BytesList [[100, 49]],
                           ''turn'' \<mapsto> Int64List [1]]"

definition written_world :: "record_bytes list \<Rightarrow> world" where
  "written_world recs =
     \<lparr>dirs = {''out''}, files = [''out/train.tfrecord'' \<mapsto> recs],
      log = [(''train.tfrecord'', length recs)]\<rparr>"


text \<open>
  Records that the writer does not produce: one with a fifth feature, one with
  \<^verbatim>\<open>turn\<close> alone, and one whose \<^verbatim>\<open>turn\<close> is a float list.
\<close>

definition record_with_frame :: record_bytes where
  "record_with_frame = Serialized [''input'' \<mapsto> BytesList [[104, 105]],
                                  ''value'' \<mapsto> BytesList [[104, 101, 108, 108, 111]],
                                  ''dialog_id'' \<mapsto> BytesList [[100, 49]],
                                  ''turn'' \<mapsto> Int64List [0],
                                  ''frame'' \<mapsto> Int64List [0]]"

definition record_turn_only :: record_bytes where
  "record_turn_only = Serialized [''turn'' \<mapsto> Int64List [0]]"

definition record_float_turn :: record_bytes where
  "record_float_turn = Serialized [''input'' \<mapsto> BytesList [[104, 105]],
                                  ''value'' \<mapsto> BytesList [[104, 101, 108, 108, 111]],
                                  ''dialog_id'' \<mapsto> BytesList [[100, 49]],
                                  ''turn'' \<mapsto> FloatList [0]]"

section \<open>Properties of the model\<close>

subsection \<open>UTF-8 round trip\<close>

lemma unat_byte: "n < 256 \<Longrightarrow> unat (of_nat n :: 8 word) = n"
  by (simp add: unat_of_nat)

lemma split3: "(c::nat) div 4096 * 4096 + c div 64 mod 64 * 64 + c mod 64 = c"
proof -
  have "c div 4096 = c div 64 div 64" by (simp add: div_mult2_eq)
  moreover have "c div 64 div 64 * 64 + c div 64 mod 64 = c div 64" by simp
  moreover have "c div 64 * 64 + c mod 64 = c" by simp
  ultimately show ?thesis by linarith
qed

lemma split4:
  "(c::nat) div 262144 * 262144 + c div 4096 mod 64 * 4096 + c div 64 mod 64 * 64 + c mod 64 = c"
proof -
  have "c div 262144 = c div 4096 div 64" by (simp add: div_mult2_eq)
  moreover have "c div 4096 div 64 * 64 + c div 4096 mod 64 = c div 4096" by simp
  moreover have "c div 4096 = c div 64 div 64" by (simp add: div_mult2_eq)
  moreover have "c div 64 div 64 * 64 + c div 64 mod 64 = c div 64" by simp
  moreover have "c div 64 * 64 + c mod 64 = c" by simp
  ultimately show ?thesis by linarith
qed

lemma decode_encode_code_point:
  assumes "encode_code_point c = Inr bs"
  shows "utf8_decode (bs @ rest) = map_option ((#) c) (utf8_decode rest)"
proof -
  consider "c < 0x80" | "0x80 \<le> c" "c < 0x800"
    | "0x800 \<le> c" "c < 0x10000" "\<not> (0xD800 \<le> c \<and> c \<le> 0xDFFF)"
    | "0x10000 \<le> c" "c < 0x110000"
    using assms by (auto simp: encode_code_point_def split: if_splits)
  then show ?thesis
  proof cases
    case 1
    then have "bs = [of_nat c]"
      using assms by (simp add: encode_code_point_def)
    moreover have "unat (of_nat c :: 8 word) = c"
      by (rule unat_byte) (use 1 in simp)
    ultimately show ?thesis using 1 by simp
  next
    case 2
    define b0 :: "8 word" where "b0 = of_nat (0xC0 + c div 64)"
    define b1 :: "8 word" where "b1 = of_nat (0x80 + c mod 64)"
    have bs: "bs = [b0, b1]"
      using assms 2 by (simp add: encode_code_point_def b0_def b1_def)
    have u0: "unat b0 = 0xC0 + c div 64"
      unfolding b0_def by (rule unat_byte) (use 2 in simp)
    have u1: "unat b1 = 0x80 + c mod 64"
      unfolding b1_def by (rule unat_byte) simp
    have r: "c div 64 * 64 + c mod 64 = c" by simp
    have d: "2 \<le> c div 64" "c div 64 < 32" using 2 by auto
    show ?thesis
      unfolding bs using d r by (simp add: u0 u1 continuation_def)
  next
    case 3
    define b0 :: "8 word" where "b0 = of_nat (0xE0 + c div 4096)"
    define b1 :: "8 word" where "b1 = of_nat (0x80 + c div 64 mod 64)"
    define b2 :: "8 word" where "b2 = of_nat (0x80 + c mod 64)"
    have bs: "bs = [b0, b1, b2]"
      using assms 3 by (simp add: encode_code_point_def b0_def b1_def b2_def)
    have u0: "unat b0 = 0xE0 + c div 4096"
      unfolding b0_def by (rule unat_byte) (use 3 in simp)
    have u1: "unat b1 = 0x80 + c div 64 mod 64"
      unfolding b1_def by (rule unat_byte) simp
    have u2: "unat b2 = 0x80 + c mod 64"
      unfolding b2_def by (rule unat_byte) simp
    have r: "c div 4096 * 4096 + c div 64 mod 64 * 64 + c mod 64 = c" by (rule split3)
    have d: "c div 4096 < 16" using 3 by auto
    show ?thesis
      unfolding bs using d r 3 by (simp add: u0 u1 u2 continuation_def)
  next
    case 4
    define b0 :: "8 word" where "b0 = of_nat (0xF0 + c div 262144)"
    define b1 :: "8 word" where "b1 = of_nat (0x80 + c div 4096 mod 64)"
    define b2 :: "8 word" where "b2 = of_nat (0x80 + c div 64 mod 64)"
    define b3 :: "8 word" where "b3 = of_nat (0x80 + c mod 64)"
    have bs: "bs = [b0, b1, b2, b3]"
      using assms 4 by (simp add: encode_code_point_def b0_def b1_def b2_def b3_def)
    have u0: "unat b0 = 0xF0 + c div 262144"
      unfolding b0_def by (rule unat_byte) (use 4 in simp)
    have u1: "unat b1 = 0x80 + c div 4096 mod 64"
      unfolding b1_def by (rule unat_byte) simp
    have u2: "unat b2 = 0x80 + c div 64 mod 64"
      unfolding b2_def by (rule unat_byte) simp
    have u3: "unat b3 = 0x80 + c mod 64"
      unfolding b3_def by (rule unat_byte) simp
    have r: "c div 262144 * 262144 + c div 4096 mod 64 * 4096 + c div 64 mod 64 * 64
             + c mod 64 = c" by (rule split4)
    have d: "c div 262144 < 5" using 4 by auto
    show ?thesis
      unfolding bs using d r 4 by (simp add: u0 u1 u2 u3 continuation_def)
  qed
qed

lemma utf8_decode_encode: "utf8_encode s = Inr bs \<Longrightarrow> utf8_decode bs = Some s"
proof (induction s arbitrary: bs)
  case Nil
  then show ?case by simp
next
  case (Cons c cs)
  then show ?case
    by (auto split: sum.splits simp: decode_encode_code_point)
qed

lemma utf8_encodable_iff:
  "utf8_encodable s \<longleftrightarrow> (\<forall>c\<in>set s. c < 0x110000 \<and> \<not> (0xD800 \<le> c \<and> c \<le> 0xDFFF))"
proof (induction s)
  case Nil
  then show ?case by (simp add: utf8_encodable_def)
next
  case (Cons c cs)
  have "(\<exists>bs. encode_code_point c = Inr bs) \<longleftrightarrow> c < 0x110000 \<and> \<not> (0xD800 \<le> c \<and> c \<le> 0xDFFF)"
    by (auto simp: encode_code_point_def)
  with Cons show ?case
    by (auto simp: utf8_encodable_def split: sum.splits)
qed

subsection \<open>Paths and directory creation\<close>






lemma gfile_makedirs_empty: "gfile_makedirs [] w = Inr w"
  by (simp add: gfile_makedirs.simps)




subsection \<open>Records\<close>

lemma make_tf_example_Inr:
  assumes "make_tf_example e = Inr ex"
  shows "\<exists>s t d. utf8_encode (src e) = Inr s \<and> utf8_encode (tgt e) = Inr t
           \<and> utf8_encode (dialog_id e) = Inr d
           \<and> - (2 ^ 63) \<le> turn e \<and> turn e < 2 ^ 63
           \<and> ex = [''input'' \<mapsto> BytesList [s], ''value'' \<mapsto> BytesList [t],
                   ''dialog_id'' \<mapsto> BytesList [d],
                   ''turn'' \<mapsto> Int64List [word_of_int (turn e)]]"
  using assms
  by (auto simp: make_tf_example_def int64_feature_def bytes_feature_def
           split: sum.splits if_splits)

lemma decode_fn_written:
  "decode_fn (Serialized [''input'' \<mapsto> BytesList [s], ''value'' \<mapsto> BytesList [t],
                          ''dialog_id'' \<mapsto> BytesList [d], ''turn'' \<mapsto> Int64List [n]])
   = Inr [''turn'' \<mapsto> Tensor [] (Int64s [n]),
          ''dialog_id'' \<mapsto> SparseTensor (Strings [d]),
          ''value'' \<mapsto> SparseTensor (Strings [t]),
          ''input'' \<mapsto> SparseTensor (Strings [s])]"
  by (simp add: decode_fn_def)

lemma sint_int64: "- (2 ^ 63) \<le> v \<Longrightarrow> v < 2 ^ 63 \<Longrightarrow> sint (word_of_int v :: 64 word) = v"
proof -
  assume "- (2 ^ 63) \<le> v" "v < 2 ^ 63"
  then have "signed_take_bit (63::nat) v = v"
    by (rule signed_take_bit_int_eq_self)
  then show ?thesis by (simp add: sint_sbintrunc')
qed

lemma serialize_example_Inr:
  assumes "serialize_example e = Inr r"
  shows "\<exists>s t d. utf8_encode (src e) = Inr s \<and> utf8_encode (tgt e) = Inr t
           \<and> utf8_encode (dialog_id e) = Inr d \<and> fits_int64 (turn e)
           \<and> r = Serialized [''input'' \<mapsto> BytesList [s], ''value'' \<mapsto> BytesList [t],
                   ''dialog_id'' \<mapsto> BytesList [d],
                   ''turn'' \<mapsto> Int64List [word_of_int (turn e)]]"
proof -
  from assms obtain ex where ex: "make_tf_example e = Inr ex" and r: "r = Serialized ex"
    by (auto simp: serialize_example_def SerializeToString_def split: sum.splits)
  from make_tf_example_Inr [OF ex] r show ?thesis
    by (auto simp: fits_int64_def)
qed

lemma serialize_example_succeeds:
  "(\<exists>r. serialize_example e = Inr r) \<longleftrightarrow>
     utf8_encodable (src e) \<and> utf8_encodable (tgt e) \<and> utf8_encodable (dialog_id e)
     \<and> fits_int64 (turn e)"
  by (auto simp: serialize_example_def make_tf_example_def utf8_encodable_def fits_int64_def
        int64_feature_def split: sum.splits)

lemma serialize_example_frame:
  "serialize_example (e\<lparr>frame := f\<rparr>) = serialize_example e"
  by (simp add: serialize_example_def make_tf_example_def split: sum.splits)

lemma read_record_serialized:
  assumes "serialize_example e = Inr r"
  shows "read_record r = Some (wire_fields e)"
proof -
  from serialize_example_Inr [OF assms] obtain s t d where
    e: "utf8_encode (src e) = Inr s" "utf8_encode (tgt e) = Inr t"
       "utf8_encode (dialog_id e) = Inr d" "fits_int64 (turn e)"
    and r: "r = Serialized [''input'' \<mapsto> BytesList [s], ''value'' \<mapsto> BytesList [t],
                   ''dialog_id'' \<mapsto> BytesList [d],
                   ''turn'' \<mapsto> Int64List [word_of_int (turn e)]]"
    by blast
  have "sint (word_of_int (turn e) :: 64 word) = turn e"
    using e(4) by (simp add: fits_int64_def sint_int64)
  then show ?thesis
    unfolding r read_record_def decode_fn_written
    by (simp add: decoded_fields_def wire_fields_def utf8_decode_encode [OF e(1)]
          utf8_decode_encode [OF e(2)] utf8_decode_encode [OF e(3)])
qed

lemma read_records_serialized:
  "map serialize_example exs = map Inr recs \<Longrightarrow>
   map read_record recs = map (\<lambda>e. Some (wire_fields e)) exs"
proof (induction exs arbitrary: recs)
  case Nil
  then show ?case by simp
next
  case (Cons e es)
  then obtain r rs where recs: "recs = r # rs" by (cases recs) auto
  with Cons.prems have "serialize_example e = Inr r" "map serialize_example es = map Inr rs"
    by simp_all
  then show ?case
    using Cons.IH [of rs] recs by (simp add: read_record_serialized)
qed

lemma serialized_nth:
  assumes "map serialize_example exs = map Inr recs" and "k < length exs"
  shows "serialize_example (exs ! k) = Inr (recs ! k)"
proof -
  have "length recs = length exs" using assms(1) by (metis length_map)
  then have "map serialize_example exs ! k = map Inr recs ! k" using assms(1) by simp
  then show ?thesis using assms(2) \<open>length recs = length exs\<close> by simp
qed

subsection \<open>The schema of the decoder\<close>

lemma parse_feature_VarLen:
  "parse_feature fo (VarLenFeature dt) =
     (if wrong_type dt fo then Inl InvalidArgumentError
      else Inr (SparseTensor (values_or_none dt fo)))"
  by (cases fo) auto

lemma parse_feature_turn:
  "parse_feature fo (FixedLenFeature [] DT_INT64) =
     (if one_int64 fo then Inr (Tensor [] (values_or_none DT_INT64 fo))
      else Inl InvalidArgumentError)"
proof (cases fo)
  case None
  then show ?thesis by simp
next
  case (Some f)
  show ?thesis
  proof (cases f)
    case (Int64List vs)
    show ?thesis
    proof (cases vs)
      case Nil
      then show ?thesis using Some Int64List by simp
    next
      case (Cons n ns)
      then show ?thesis using Some Int64List by (cases ns) simp_all
    qed
  qed (use Some in auto)
qed

lemma decode_fn_eq:
  "decode_fn (Serialized ex) =
     (if wrong_type DT_STRING (ex ''input'') \<or> wrong_type DT_STRING (ex ''value'')
         \<or> wrong_type DT_STRING (ex ''dialog_id'') \<or> \<not> one_int64 (ex ''turn'')
      then Inl InvalidArgumentError
      else Inr [''turn'' \<mapsto> Tensor [] (values_or_none DT_INT64 (ex ''turn'')),
                ''dialog_id'' \<mapsto> SparseTensor (values_or_none DT_STRING (ex ''dialog_id'')),
                ''value'' \<mapsto> SparseTensor (values_or_none DT_STRING (ex ''value'')),
                ''input'' \<mapsto> SparseTensor (values_or_none DT_STRING (ex ''input''))])"
  by (simp add: decode_fn_def parse_feature_VarLen parse_feature_turn)

lemma one_int64_iff: "one_int64 fo \<longleftrightarrow> (\<exists>n. fo = Some (Int64List [n]))"
  by (cases fo rule: one_int64.cases) auto

subsection \<open>Shuffling and the writer\<close>

lemma shuffle_from_mset:
  "k < length x \<Longrightarrow> mset (shuffle_from rnd k x) = mset x"
proof (induction k arbitrary: x)
  case 0
  then show ?case by simp
next
  case (Suc k)
  define j where "j = randbelow rnd (Suc k + 1)"
  have j: "j < length x"
    using Suc.prems by (simp add: j_def randbelow_def) (meson less_Suc_eq_le mod_less_divisor order_le_less_trans zero_less_Suc less_le_trans Suc_leI)
  have "mset (x[Suc k := x ! j, j := x ! Suc k]) = mset x"
    using Suc.prems j by (simp add: mset_swap)
  moreover have "k < length (x[Suc k := x ! j, j := x ! Suc k])"
    using Suc.prems by simp
  ultimately show ?case
    using Suc.IH [of "x[Suc k := x ! j, j := x ! Suc k]"] by (simp add: Let_def j_def)
qed

lemma random_shuffle_mset: "mset (random_shuffle rnd x) = mset x"
proof (cases x)
  case Nil
  then show ?thesis by (simp add: random_shuffle_def)
next
  case (Cons a as)
  then show ?thesis by (simp add: random_shuffle_def shuffle_from_mset)
qed

lemma random_shuffle_length: "length (random_shuffle rnd x) = length x"
  using random_shuffle_mset [of rnd x] by (metis size_mset)

lemma random_shuffle_Nil: "random_shuffle rnd [] = []"
  by (simp add: random_shuffle_def)

lemma random_shuffle_two_swap: "random_shuffle (\<lambda>n. 0) [a, b] = [b, a]"
  by (simp add: random_shuffle_def randbelow_def)

lemma random_shuffle_two_keep: "random_shuffle (\<lambda>n. 1) [a, b] = [a, b]"
  by (simp add: random_shuffle_def randbelow_def)

lemma write_examples_files:
  assumes "write_examples p exs w = Inr w'" and "files w p = Some rs"
  shows "\<exists>recs. map serialize_example exs = map Inr recs \<and> files w' p = Some (rs @ recs)
           \<and> dirs w' = dirs w \<and> log w' = log w \<and> (\<forall>q. q \<noteq> p \<longrightarrow> files w' q = files w q)"
  using assms
proof (induction exs arbitrary: w rs)
  case Nil
  then show ?case by simp
next
  case (Cons e es)
  from Cons.prems(1) obtain r where r: "serialize_example e = Inr r"
      and rest: "write_examples p es (writer_write p r w) = Inr w'"
    by (auto split: sum.splits)
  have f: "files (writer_write p r w) p = Some (rs @ [r])"
    using Cons.prems(2) by (simp add: writer_write_def)
  from Cons.IH [OF rest f] obtain recs where
    recs: "map serialize_example es = map Inr recs" "files w' p = Some ((rs @ [r]) @ recs)"
      "dirs w' = dirs (writer_write p r w)" "log w' = log (writer_write p r w)"
      "\<forall>q. q \<noteq> p \<longrightarrow> files w' q = files (writer_write p r w) q"
    by blast
  have "map serialize_example (e # es) = map Inr (r # recs)"
    using r recs(1) by simp
  moreover have "files w' p = Some (rs @ r # recs)" using recs(2) by simp
  moreover have "dirs w' = dirs w" "log w' = log w" "\<forall>q. q \<noteq> p \<longrightarrow> files w' q = files w q"
    using recs(3,4,5) by (simp_all add: writer_write_def)
  ultimately show ?case by blast
qed



lemma TFRecordWriter_Inr:
  assumes "TFRecordWriter p w = Inr w2"
  shows "files w2 p = Some [] \<and> dirs w2 = dirs w \<and> log w2 = log w
         \<and> (\<forall>q. q \<noteq> p \<longrightarrow> files w2 q = files w q)
         \<and> basename p \<noteq> [] \<and> p \<notin> dirs w \<and> isdir w (dirname p)"
  using assms by (auto simp: TFRecordWriter_def split: if_splits)

lemma write_data_Inr:
  assumes "write_data mk rnd exs p sh w = Inr (exs', w')"
  shows "\<exists>w1 w2 w3. mk (dirname p) w = Inr w1
           \<and> exs' = (if sh then random_shuffle rnd exs else exs)
           \<and> TFRecordWriter p w1 = Inr w2
           \<and> write_examples p exs' w2 = Inr w3
           \<and> w' = logging_info (basename p) (length exs') w3"
  using assms by (auto simp: write_data_def Let_def split: sum.splits)

lemma write_data_records:
  assumes "write_data mk rnd exs p sh w = Inr (exs', w')"
  shows "\<exists>recs. files w' p = Some recs \<and> map serialize_example exs' = map Inr recs"
proof -
  from write_data_Inr [OF assms] obtain w1 w2 w3 where
    s: "TFRecordWriter p w1 = Inr w2" "write_examples p exs' w2 = Inr w3"
       "w' = logging_info (basename p) (length exs') w3"
    by blast
  have "files w2 p = Some []" using TFRecordWriter_Inr [OF s(1)] by simp
  from write_examples_files [OF s(2) this] obtain recs where
    "map serialize_example exs' = map Inr recs" "files w3 p = Some recs"
    by auto
  then show ?thesis using s(3) by (auto simp: logging_info_def)
qed


subsection \<open>The concrete inputs\<close>

lemma serialize_example_hi: "serialize_example example_hi = Inr record_hi"
  by (simp add: serialize_example_def make_tf_example_def example_hi_def ascii_def
        encode_code_point_def int64_feature_def bytes_feature_def SerializeToString_def
        record_hi_def)

lemma serialize_example_bye: "serialize_example example_bye = Inr record_bye"
  by (simp add: serialize_example_def make_tf_example_def example_bye_def ascii_def
        encode_code_point_def int64_feature_def bytes_feature_def SerializeToString_def
        record_bye_def)

lemma dirname_out: "dirname ''out/train.tfrecord'' = ''out''"
  by (simp add: dirname_def rfind_def rstrip_def)

lemma basename_out: "basename ''out/train.tfrecord'' = ''train.tfrecord''"
  by (simp add: basename_def rfind_def)

lemma dirname_out_top: "dirname ''out'' = []"
  by (simp add: dirname_def rfind_def)

lemma gfile_makedirs_out:
  "gfile_makedirs ''out'' empty_world = Inr (empty_world\<lparr>dirs := {''out''}\<rparr>)"
  by (subst gfile_makedirs.simps)
     (simp add: dirname_out_top gfile_makedirs_empty is_root_def empty_world_def)

lemma TFRecordWriter_out:
  "TFRecordWriter ''out/train.tfrecord'' (empty_world\<lparr>dirs := {''out''}\<rparr>)
   = Inr \<lparr>dirs = {''out''}, files = [''out/train.tfrecord'' \<mapsto> []], log = []\<rparr>"
  by (simp add: TFRecordWriter_def dirname_out basename_out isdir_def empty_world_def)

lemma write_data_hi_bye:
  "write_data gfile_makedirs rnd [example_hi, example_bye] ''out/train.tfrecord'' False
     empty_world
   = Inr ([example_hi, example_bye], written_world [record_hi, record_bye])"
  unfolding write_data_def dirname_out basename_out gfile_makedirs_out
  by (simp add: TFRecordWriter_def dirname_out basename_out
        isdir_def empty_world_def serialize_example_hi serialize_example_bye writer_write_def
        logging_info_def written_world_def)

lemma write_data_bye_hi:
  "write_data gfile_makedirs (\<lambda>n. 0) [example_hi, example_bye] ''out/train.tfrecord'' True
     empty_world
   = Inr ([example_bye, example_hi], written_world [record_bye, record_hi])"
  unfolding write_data_def dirname_out basename_out gfile_makedirs_out
  by (simp add: TFRecordWriter_def dirname_out basename_out
        isdir_def empty_world_def serialize_example_hi serialize_example_bye writer_write_def
        logging_info_def written_world_def random_shuffle_two_swap)





section \<open>The claims\<close>

subsection \<open>The round trip of one record\<close>

text \<open>
  Claim C1. The record that \<open>write_data\<close> writes for an example is the one
  \<open>serialize_example\<close> gives (third part). Decoding it with \<open>decode_fn\<close> succeeds and
  gives the four keys: \<^verbatim>\<open>input\<close>, \<^verbatim>\<open>value\<close> and \<^verbatim>\<open>dialog_id\<close> each hold one
  byte string, which is UTF-8 for \<^verbatim>\<open>src\<close>, \<^verbatim>\<open>tgt\<close> and \<^verbatim>\<open>dialog_id\<close>, and
  \<^verbatim>\<open>turn\<close> holds the record's turn. The frame is not recoverable: an example with
  any other frame gives the same record (first part). A record is produced exactly for
  the examples whose three strings are UTF-8-encodable and whose turn fits 64 signed
  bits (second part).
\<close>

theorem decode_written_record:
  "(serialize_example e = Inr r \<longrightarrow>
      (\<exists>d i v di n. decode_fn r = Inr d
         \<and> dom d = {''input'', ''value'', ''dialog_id'', ''turn''}
         \<and> d ''input'' = Some (SparseTensor (Strings [i])) \<and> utf8_decode i = Some (src e)
         \<and> d ''value'' = Some (SparseTensor (Strings [v])) \<and> utf8_decode v = Some (tgt e)
         \<and> d ''dialog_id'' = Some (SparseTensor (Strings [di]))
         \<and> utf8_decode di = Some (dialog_id e)
         \<and> d ''turn'' = Some (Tensor [] (Int64s [n])) \<and> sint n = turn e)
      \<and> (\<forall>f. serialize_example (e\<lparr>frame := f\<rparr>) = Inr r))
   \<and> ((\<exists>r. serialize_example e = Inr r) \<longleftrightarrow>
        utf8_encodable (src e) \<and> utf8_encodable (tgt e) \<and> utf8_encodable (dialog_id e)
        \<and> fits_int64 (turn e))
   \<and> (write_data mk rnd exs p sh w = Inr (exs', w') \<longrightarrow>
        (\<exists>recs. files w' p = Some recs \<and> map serialize_example exs' = map Inr recs))"
proof (intro conjI impI)
  assume a: "serialize_example e = Inr r"
  from serialize_example_Inr [OF a] obtain s t d where
    e: "utf8_encode (src e) = Inr s" "utf8_encode (tgt e) = Inr t"
       "utf8_encode (dialog_id e) = Inr d" "fits_int64 (turn e)"
    and r: "r = Serialized [''input'' \<mapsto> BytesList [s], ''value'' \<mapsto> BytesList [t],
                   ''dialog_id'' \<mapsto> BytesList [d],
                   ''turn'' \<mapsto> Int64List [word_of_int (turn e)]]"
    by blast
  have n: "sint (word_of_int (turn e) :: 64 word) = turn e"
    using e(4) by (simp add: fits_int64_def sint_int64)
  let ?d = "[''turn'' \<mapsto> Tensor [] (Int64s [word_of_int (turn e)]),
          ''dialog_id'' \<mapsto> SparseTensor (Strings [d]),
          ''value'' \<mapsto> SparseTensor (Strings [t]),
          ''input'' \<mapsto> SparseTensor (Strings [s])]"
  have "decode_fn r = Inr ?d" unfolding r by (rule decode_fn_written)
  moreover have "dom ?d = {''input'', ''value'', ''dialog_id'', ''turn''}" by auto
  moreover have "?d ''input'' = Some (SparseTensor (Strings [s]))"
    "?d ''value'' = Some (SparseTensor (Strings [t]))"
    "?d ''dialog_id'' = Some (SparseTensor (Strings [d]))"
    "?d ''turn'' = Some (Tensor [] (Int64s [word_of_int (turn e)]))"
    by simp_all
  ultimately show "\<exists>d i v di n. decode_fn r = Inr d
         \<and> dom d = {''input'', ''value'', ''dialog_id'', ''turn''}
         \<and> d ''input'' = Some (SparseTensor (Strings [i])) \<and> utf8_decode i = Some (src e)
         \<and> d ''value'' = Some (SparseTensor (Strings [v])) \<and> utf8_decode v = Some (tgt e)
         \<and> d ''dialog_id'' = Some (SparseTensor (Strings [di]))
         \<and> utf8_decode di = Some (dialog_id e)
         \<and> d ''turn'' = Some (Tensor [] (Int64s [n])) \<and> sint n = turn e"
    using utf8_decode_encode [OF e(1)] utf8_decode_encode [OF e(2)]
      utf8_decode_encode [OF e(3)] n by blast
  show "\<forall>f. serialize_example (e\<lparr>frame := f\<rparr>) = Inr r"
    using a by (simp add: serialize_example_frame)
next
  show "(\<exists>r. serialize_example e = Inr r) \<longleftrightarrow>
        utf8_encodable (src e) \<and> utf8_encodable (tgt e) \<and> utf8_encodable (dialog_id e)
        \<and> fits_int64 (turn e)"
    by (rule serialize_example_succeeds)
next
  assume "write_data mk rnd exs p sh w = Inr (exs', w')"
  then show "\<exists>recs. files w' p = Some recs \<and> map serialize_example exs' = map Inr recs"
    by (rule write_data_records)
qed

theorem decode_written_record_witness:
  "serialize_example example_hi = Inr record_hi
   \<and> (\<exists>d i v di n. decode_fn record_hi = Inr d
         \<and> dom d = {''input'', ''value'', ''dialog_id'', ''turn''}
         \<and> d ''input'' = Some (SparseTensor (Strings [i])) \<and> utf8_decode i = Some (ascii ''hi'')
         \<and> d ''value'' = Some (SparseTensor (Strings [v]))
         \<and> utf8_decode v = Some (ascii ''hello'')
         \<and> d ''dialog_id'' = Some (SparseTensor (Strings [di]))
         \<and> utf8_decode di = Some (ascii ''d1'')
         \<and> d ''turn'' = Some (Tensor [] (Int64s [n])) \<and> sint n = 0)
   \<and> (\<forall>f. serialize_example (example_hi\<lparr>frame := f\<rparr>) = Inr record_hi)
   \<and> write_data gfile_makedirs (\<lambda>n. 0) [example_hi, example_bye] ''out/train.tfrecord''
        False empty_world
      = Inr ([example_hi, example_bye], written_world [record_hi, record_bye])
   \<and> (\<exists>recs. files (written_world [record_hi, record_bye]) ''out/train.tfrecord'' = Some recs
         \<and> map serialize_example [example_hi, example_bye] = map Inr recs)"
  using decode_written_record [of example_hi record_hi gfile_makedirs "\<lambda>n. 0"
      "[example_hi, example_bye]" "''out/train.tfrecord''" False empty_world
      "[example_hi, example_bye]" "written_world [record_hi, record_bye]"]
    serialize_example_hi write_data_hi_bye [of "\<lambda>n. 0"]
  by (simp add: example_hi_def)

subsection \<open>The schema of the decoder\<close>

text \<open>
  Claim C2, as stated: every record that does not hold exactly the four fields with
  their types is refused. It fails: \<open>decode_fn\<close> accepts the record of the writer
  with a fifth feature \<^verbatim>\<open>frame\<close> added, and it accepts a record that holds
  \<^verbatim>\<open>turn\<close> alone, giving empty sparse tensors for the three missing strings.
\<close>

theorem decode_fn_schema_counterexample:
  "\<not> exactly_four_fields record_with_frame
   \<and> decode_fn record_with_frame
      = Inr [''turn'' \<mapsto> Tensor [] (Int64s [0]),
             ''dialog_id'' \<mapsto> SparseTensor (Strings [[100, 49]]),
             ''value'' \<mapsto> SparseTensor (Strings [[104, 101, 108, 108, 111]]),
             ''input'' \<mapsto> SparseTensor (Strings [[104, 105]])]
   \<and> \<not> exactly_four_fields record_turn_only
   \<and> decode_fn record_turn_only
      = Inr [''turn'' \<mapsto> Tensor [] (Int64s [0]),
             ''dialog_id'' \<mapsto> SparseTensor (Strings []),
             ''value'' \<mapsto> SparseTensor (Strings []),
             ''input'' \<mapsto> SparseTensor (Strings [])]"
proof (intro conjI)
  show "\<not> exactly_four_fields record_with_frame"
  proof
    assume "exactly_four_fields record_with_frame"
    then have "dom [''input'' \<mapsto> BytesList [[104, 105]],
                    ''value'' \<mapsto> BytesList [[104, 101, 108, 108, 111]],
                    ''dialog_id'' \<mapsto> BytesList [[100, 49]],
                    ''turn'' \<mapsto> Int64List [0],
                    ''frame'' \<mapsto> Int64List [0]]
               = {''input'', ''value'', ''dialog_id'', ''turn''}"
      by (simp add: record_with_frame_def)
    moreover have "''frame'' \<in> dom [''input'' \<mapsto> BytesList [[104, 105]],
                    ''value'' \<mapsto> BytesList [[104, 101, 108, 108, 111]],
                    ''dialog_id'' \<mapsto> BytesList [[100, 49]],
                    ''turn'' \<mapsto> Int64List [0],
                    ''frame'' \<mapsto> Int64List [0]]"
      by simp
    ultimately have "''frame'' \<in> {''input'', ''value'', ''dialog_id'', ''turn''}"
      by (rule subst [where P = "\<lambda>S. ''frame'' \<in> S"])
    then show False by simp
  qed
  show "\<not> exactly_four_fields record_turn_only"
    by (simp add: record_turn_only_def)
  show "decode_fn record_with_frame
      = Inr [''turn'' \<mapsto> Tensor [] (Int64s [0]),
             ''dialog_id'' \<mapsto> SparseTensor (Strings [[100, 49]]),
             ''value'' \<mapsto> SparseTensor (Strings [[104, 101, 108, 108, 111]]),
             ''input'' \<mapsto> SparseTensor (Strings [[104, 105]])]"
    unfolding record_with_frame_def decode_fn_eq by simp
  show "decode_fn record_turn_only
      = Inr [''turn'' \<mapsto> Tensor [] (Int64s [0]),
             ''dialog_id'' \<mapsto> SparseTensor (Strings []),
             ''value'' \<mapsto> SparseTensor (Strings []),
             ''input'' \<mapsto> SparseTensor (Strings [])]"
    unfolding record_turn_only_def decode_fn_eq by simp
qed

text \<open>
  Claim C2, amended. \<open>decode_fn\<close> fails exactly when \<^verbatim>\<open>turn\<close> is missing or is not
  an int64 list of exactly one value, or one of \<^verbatim>\<open>input\<close>, \<^verbatim>\<open>value\<close>,
  \<^verbatim>\<open>dialog_id\<close> is present with another type than bytes. The failure is an
  \<^verbatim>\<open>InvalidArgumentError\<close> and gives no mapping. A success gives a mapping with the
  four keys: the scalar turn, and for each string feature its values, none when the
  feature is missing. Features the schema does not name are ignored.
\<close>

theorem decode_fn_failure_iff:
  "((\<exists>err. decode_fn (Serialized ex) = Inl err) \<longleftrightarrow>
      \<not> (\<exists>n. ex ''turn'' = Some (Int64List [n]))
      \<or> wrong_type DT_STRING (ex ''input'') \<or> wrong_type DT_STRING (ex ''value'')
      \<or> wrong_type DT_STRING (ex ''dialog_id''))
   \<and> (\<forall>err. decode_fn (Serialized ex) = Inl err \<longrightarrow> err = InvalidArgumentError)
   \<and> (\<forall>d. decode_fn (Serialized ex) = Inr d \<longrightarrow>
          dom d = {''input'', ''value'', ''dialog_id'', ''turn''}
          \<and> (\<exists>n. ex ''turn'' = Some (Int64List [n]) \<and> d ''turn'' = Some (Tensor [] (Int64s [n])))
          \<and> d ''input'' = Some (SparseTensor (values_or_none DT_STRING (ex ''input'')))
          \<and> d ''value'' = Some (SparseTensor (values_or_none DT_STRING (ex ''value'')))
          \<and> d ''dialog_id'' = Some (SparseTensor (values_or_none DT_STRING (ex ''dialog_id''))))
   \<and> (\<forall>name f. name \<notin> {''input'', ''value'', ''dialog_id'', ''turn''} \<longrightarrow>
          decode_fn (Serialized (ex(name \<mapsto> f))) = decode_fn (Serialized ex))"
proof (intro conjI allI impI)
  show "(\<exists>err. decode_fn (Serialized ex) = Inl err) \<longleftrightarrow>
      \<not> (\<exists>n. ex ''turn'' = Some (Int64List [n]))
      \<or> wrong_type DT_STRING (ex ''input'') \<or> wrong_type DT_STRING (ex ''value'')
      \<or> wrong_type DT_STRING (ex ''dialog_id'')"
    unfolding decode_fn_eq one_int64_iff by auto
next
  fix err assume "decode_fn (Serialized ex) = Inl err"
  then show "err = InvalidArgumentError"
    unfolding decode_fn_eq by (simp split: if_splits)
next
  fix d assume d: "decode_fn (Serialized ex) = Inr d"
  then have ok: "one_int64 (ex ''turn'')"
    and dd: "d = [''turn'' \<mapsto> Tensor [] (values_or_none DT_INT64 (ex ''turn'')),
                ''dialog_id'' \<mapsto> SparseTensor (values_or_none DT_STRING (ex ''dialog_id'')),
                ''value'' \<mapsto> SparseTensor (values_or_none DT_STRING (ex ''value'')),
                ''input'' \<mapsto> SparseTensor (values_or_none DT_STRING (ex ''input''))]"
    unfolding decode_fn_eq by (auto split: if_splits)
  show "dom d = {''input'', ''value'', ''dialog_id'', ''turn''}"
    unfolding dd by auto
  from ok obtain n where n: "ex ''turn'' = Some (Int64List [n])"
    unfolding one_int64_iff by blast
  then show "\<exists>n. ex ''turn'' = Some (Int64List [n]) \<and> d ''turn'' = Some (Tensor [] (Int64s [n]))"
    unfolding dd by simp
  show "d ''input'' = Some (SparseTensor (values_or_none DT_STRING (ex ''input'')))"
    "d ''value'' = Some (SparseTensor (values_or_none DT_STRING (ex ''value'')))"
    "d ''dialog_id'' = Some (SparseTensor (values_or_none DT_STRING (ex ''dialog_id'')))"
    unfolding dd by simp_all
next
  fix name f assume "name \<notin> {''input'', ''value'', ''dialog_id'', ''turn''}"
  then have "(ex(name \<mapsto> f)) ''input'' = ex ''input''"
    "(ex(name \<mapsto> f)) ''value'' = ex ''value''"
    "(ex(name \<mapsto> f)) ''dialog_id'' = ex ''dialog_id''"
    "(ex(name \<mapsto> f)) ''turn'' = ex ''turn''"
    by auto
  then show "decode_fn (Serialized (ex(name \<mapsto> f))) = decode_fn (Serialized ex)"
    by (simp only: decode_fn_eq)
qed

theorem decode_fn_failure_iff_witness:
  "decode_fn record_float_turn = Inl InvalidArgumentError
   \<and> decode_fn record_with_frame = decode_fn record_hi
   \<and> (\<exists>d. decode_fn record_hi = Inr d
          \<and> dom d = {''input'', ''value'', ''dialog_id'', ''turn''}
          \<and> d ''turn'' = Some (Tensor [] (Int64s [0])))"
proof -
  let ?hi = "[''input'' \<mapsto> BytesList [[104, 105]],
              ''value'' \<mapsto> BytesList [[104, 101, 108, 108, 111]],
              ''dialog_id'' \<mapsto> BytesList [[100, 49]],
              ''turn'' \<mapsto> Int64List [0]]"
  let ?fl = "[''input'' \<mapsto> BytesList [[104, 105]],
              ''value'' \<mapsto> BytesList [[104, 101, 108, 108, 111]],
              ''dialog_id'' \<mapsto> BytesList [[100, 49]],
              ''turn'' \<mapsto> FloatList [0]]"
  note fl = decode_fn_failure_iff [of ?fl]
  have pre: "\<not> (\<exists>n. ?fl ''turn'' = Some (Int64List [n]))
      \<or> wrong_type DT_STRING (?fl ''input'') \<or> wrong_type DT_STRING (?fl ''value'')
      \<or> wrong_type DT_STRING (?fl ''dialog_id'')"
    by simp
  from fl [THEN conjunct1, THEN iffD2, OF pre] obtain err where
    e: "decode_fn (Serialized ?fl) = Inl err" ..
  from fl [THEN conjunct2, THEN conjunct1, rule_format, OF e]
  have "err = InvalidArgumentError" .
  with e have a: "decode_fn record_float_turn = Inl InvalidArgumentError"
    by (simp only: record_float_turn_def)
  note hi = decode_fn_failure_iff [of ?hi]
  have nf: "''frame'' \<notin> {''input'', ''value'', ''dialog_id'', ''turn''}" by simp
  from hi [THEN conjunct2, THEN conjunct2, THEN conjunct2, rule_format, OF nf]
  have "decode_fn (Serialized (?hi(''frame'' \<mapsto> Int64List [0])))
                = decode_fn (Serialized ?hi)" .
  then have b: "decode_fn record_with_frame = decode_fn record_hi"
    by (simp only: record_with_frame_def record_hi_def)
  have ne: "\<not> (\<exists>err. decode_fn (Serialized ?hi) = Inl err)"
  proof
    assume "\<exists>err. decode_fn (Serialized ?hi) = Inl err"
    from hi [THEN conjunct1, THEN iffD1, OF this] show False by simp
  qed
  obtain d where d: "decode_fn (Serialized ?hi) = Inr d"
    using ne by (cases "decode_fn (Serialized ?hi)") blast+
  note facts = hi [THEN conjunct2, THEN conjunct2, THEN conjunct1, rule_format, OF d]
  from facts have dm: "dom d = {''input'', ''value'', ''dialog_id'', ''turn''}"
    by (rule conjunct1)
  from facts [THEN conjunct2, THEN conjunct1] obtain n where
    n: "?hi ''turn'' = Some (Int64List [n])" "d ''turn'' = Some (Tensor [] (Int64s [n]))"
    by (elim exE conjE)
  from n(1) have "n = 0" by simp
  with n(2) have tn: "d ''turn'' = Some (Tensor [] (Int64s [0]))" by simp
  from d dm tn have c: "\<exists>d. decode_fn record_hi = Inr d
          \<and> dom d = {''input'', ''value'', ''dialog_id'', ''turn''}
          \<and> d ''turn'' = Some (Tensor [] (Int64s [0]))"
    unfolding record_hi_def by (iprover intro: exI conjI)
  from a b c show ?thesis by (iprover intro: conjI)
qed

subsection \<open>The order of the records\<close>

text \<open>
  Claim C3. A successful \<open>write_data\<close> with \<^verbatim>\<open>shuffle=False\<close> leaves the sequence
  as it was and writes one record per example, in the order of the input: the file holds
  the records of the examples in that order, and reading them back one after the other
  gives the wire fields of the examples in the same order.
\<close>

theorem write_data_unshuffled_order:
  assumes "write_data mk rnd exs p False w = Inr (exs', w')"
  shows "exs' = exs
         \<and> (\<exists>recs. files w' p = Some recs \<and> length recs = length exs
               \<and> map serialize_example exs = map Inr recs
               \<and> map read_record recs = map (\<lambda>e. Some (wire_fields e)) exs)"
proof -
  from write_data_Inr [OF assms] have e: "exs' = exs" by auto
  from write_data_records [OF assms] obtain recs where
    r: "files w' p = Some recs" "map serialize_example exs' = map Inr recs"
    by blast
  have "length recs = length exs" using r(2) e by (metis length_map)
  then show ?thesis
    using e r read_records_serialized [of exs recs] by auto
qed

theorem write_data_unshuffled_order_witness:
  "write_data gfile_makedirs (\<lambda>n. 0) [example_hi, example_bye] ''out/train.tfrecord'' False
     empty_world
   = Inr ([example_hi, example_bye], written_world [record_hi, record_bye])
   \<and> files (written_world [record_hi, record_bye]) ''out/train.tfrecord''
      = Some [record_hi, record_bye]
   \<and> map read_record [record_hi, record_bye]
      = [Some (ascii ''hi'', ascii ''hello'', ascii ''d1'', 0),
         Some (ascii ''bye'', [0x61, 0xE9, 0x20AC, 0x1F600], ascii ''d1'', 1)]"
proof -
  note run = write_data_hi_bye [of "\<lambda>n. 0"]
  have f: "files (written_world [record_hi, record_bye]) ''out/train.tfrecord''
           = Some [record_hi, record_bye]"
    by (simp add: written_world_def)
  from write_data_unshuffled_order [OF run] f
  have "map read_record [record_hi, record_bye]
        = map (\<lambda>e. Some (wire_fields e)) [example_hi, example_bye]"
    by auto
  then have "map read_record [record_hi, record_bye]
      = [Some (ascii ''hi'', ascii ''hello'', ascii ''d1'', 0),
         Some (ascii ''bye'', [0x61, 0xE9, 0x20AC, 0x1F600], ascii ''d1'', 1)]"
    by (simp add: wire_fields_def example_hi_def example_bye_def)
  with run f show ?thesis by blast
qed

subsection \<open>The fields on the wire\<close>

text \<open>
  Claim C4. Every record that a successful \<open>write_data\<close> writes is an
  \<^verbatim>\<open>Example\<close> with exactly the four features \<^verbatim>\<open>input\<close>, \<^verbatim>\<open>value\<close>,
  \<^verbatim>\<open>dialog_id\<close> and \<^verbatim>\<open>turn\<close>: the first three are byte lists of one element, the
  UTF-8 encoding of \<^verbatim>\<open>src\<close>, \<^verbatim>\<open>tgt\<close> and \<^verbatim>\<open>dialog_id\<close>, and the fourth is an
  int64 list of one element, the turn. The frame is not written: the record is the same
  for every value of \<^verbatim>\<open>frame\<close>.
\<close>

theorem written_record_fields:
  assumes "write_data mk rnd exs p sh w = Inr (exs', w')"
  shows "\<exists>recs. files w' p = Some recs \<and> length recs = length exs'
           \<and> (\<forall>k<length exs'. \<exists>ex s t d.
                 recs ! k = Serialized ex
                 \<and> dom ex = {''input'', ''value'', ''dialog_id'', ''turn''}
                 \<and> utf8_encode (src (exs' ! k)) = Inr s \<and> ex ''input'' = Some (BytesList [s])
                 \<and> utf8_encode (tgt (exs' ! k)) = Inr t \<and> ex ''value'' = Some (BytesList [t])
                 \<and> utf8_encode (dialog_id (exs' ! k)) = Inr d
                 \<and> ex ''dialog_id'' = Some (BytesList [d])
                 \<and> ex ''turn'' = Some (Int64List [word_of_int (turn (exs' ! k))])
                 \<and> sint (word_of_int (turn (exs' ! k)) :: 64 word) = turn (exs' ! k)
                 \<and> (\<forall>f. serialize_example ((exs' ! k)\<lparr>frame := f\<rparr>) = Inr (recs ! k)))"
proof -
  from write_data_records [OF assms] obtain recs where
    r: "files w' p = Some recs" "map serialize_example exs' = map Inr recs"
    by blast
  have l: "length recs = length exs'" using r(2) by (metis length_map)
  have "\<exists>ex s t d.
                 recs ! k = Serialized ex
                 \<and> dom ex = {''input'', ''value'', ''dialog_id'', ''turn''}
                 \<and> utf8_encode (src (exs' ! k)) = Inr s \<and> ex ''input'' = Some (BytesList [s])
                 \<and> utf8_encode (tgt (exs' ! k)) = Inr t \<and> ex ''value'' = Some (BytesList [t])
                 \<and> utf8_encode (dialog_id (exs' ! k)) = Inr d
                 \<and> ex ''dialog_id'' = Some (BytesList [d])
                 \<and> ex ''turn'' = Some (Int64List [word_of_int (turn (exs' ! k))])
                 \<and> sint (word_of_int (turn (exs' ! k)) :: 64 word) = turn (exs' ! k)
                 \<and> (\<forall>f. serialize_example ((exs' ! k)\<lparr>frame := f\<rparr>) = Inr (recs ! k))"
    if k: "k < length exs'" for k
  proof -
    have s: "serialize_example (exs' ! k) = Inr (recs ! k)"
      using r(2) k by (rule serialized_nth)
    from serialize_example_Inr [OF s] obtain s' t d where
      e: "utf8_encode (src (exs' ! k)) = Inr s'" "utf8_encode (tgt (exs' ! k)) = Inr t"
         "utf8_encode (dialog_id (exs' ! k)) = Inr d" "fits_int64 (turn (exs' ! k))"
      and rk: "recs ! k = Serialized [''input'' \<mapsto> BytesList [s'], ''value'' \<mapsto> BytesList [t],
                   ''dialog_id'' \<mapsto> BytesList [d],
                   ''turn'' \<mapsto> Int64List [word_of_int (turn (exs' ! k))]]"
      by blast
    let ?ex = "[''input'' \<mapsto> BytesList [s'], ''value'' \<mapsto> BytesList [t],
                   ''dialog_id'' \<mapsto> BytesList [d],
                   ''turn'' \<mapsto> Int64List [word_of_int (turn (exs' ! k))]]"
    have n: "sint (word_of_int (turn (exs' ! k)) :: 64 word) = turn (exs' ! k)"
      using e(4) by (simp add: fits_int64_def sint_int64)
    have fr: "\<forall>f. serialize_example ((exs' ! k)\<lparr>frame := f\<rparr>) = Inr (recs ! k)"
      using s by (simp add: serialize_example_frame)
    show ?thesis
    proof (intro exI conjI)
      show "recs ! k = Serialized ?ex" by (rule rk)
      show "dom ?ex = {''input'', ''value'', ''dialog_id'', ''turn''}" by auto
      show "utf8_encode (src (exs' ! k)) = Inr s'" by (rule e(1))
      show "?ex ''input'' = Some (BytesList [s'])" by simp
      show "utf8_encode (tgt (exs' ! k)) = Inr t" by (rule e(2))
      show "?ex ''value'' = Some (BytesList [t])" by simp
      show "utf8_encode (dialog_id (exs' ! k)) = Inr d" by (rule e(3))
      show "?ex ''dialog_id'' = Some (BytesList [d])" by simp
      show "?ex ''turn'' = Some (Int64List [word_of_int (turn (exs' ! k))])" by simp
      show "sint (word_of_int (turn (exs' ! k)) :: 64 word) = turn (exs' ! k)" by (rule n)
      show "\<forall>f. serialize_example ((exs' ! k)\<lparr>frame := f\<rparr>) = Inr (recs ! k)" by (rule fr)
    qed
  qed
  then have "\<forall>k<length exs'. \<exists>ex s t d.
                 recs ! k = Serialized ex
                 \<and> dom ex = {''input'', ''value'', ''dialog_id'', ''turn''}
                 \<and> utf8_encode (src (exs' ! k)) = Inr s \<and> ex ''input'' = Some (BytesList [s])
                 \<and> utf8_encode (tgt (exs' ! k)) = Inr t \<and> ex ''value'' = Some (BytesList [t])
                 \<and> utf8_encode (dialog_id (exs' ! k)) = Inr d
                 \<and> ex ''dialog_id'' = Some (BytesList [d])
                 \<and> ex ''turn'' = Some (Int64List [word_of_int (turn (exs' ! k))])
                 \<and> sint (word_of_int (turn (exs' ! k)) :: 64 word) = turn (exs' ! k)
                 \<and> (\<forall>f. serialize_example ((exs' ! k)\<lparr>frame := f\<rparr>) = Inr (recs ! k))"
    by (intro allI impI)
  with r(1) l show ?thesis by (intro exI conjI)
qed

theorem written_record_fields_witness:
  "write_data gfile_makedirs (\<lambda>n. 0) [example_hi, example_bye] ''out/train.tfrecord'' False
     empty_world
   = Inr ([example_hi, example_bye], written_world [record_hi, record_bye])
   \<and> (\<exists>recs. files (written_world [record_hi, record_bye]) ''out/train.tfrecord'' = Some recs
        \<and> length recs = 2
        \<and> (\<exists>ex s t d.
              recs ! Suc 0 = Serialized ex
              \<and> dom ex = {''input'', ''value'', ''dialog_id'', ''turn''}
              \<and> utf8_encode (src example_bye) = Inr s \<and> ex ''input'' = Some (BytesList [s])
              \<and> utf8_encode (tgt example_bye) = Inr t \<and> ex ''value'' = Some (BytesList [t])
              \<and> utf8_encode (dialog_id example_bye) = Inr d
              \<and> ex ''dialog_id'' = Some (BytesList [d])
              \<and> ex ''turn'' = Some (Int64List [word_of_int (turn example_bye)])
              \<and> sint (word_of_int (turn example_bye) :: 64 word) = turn example_bye
              \<and> (\<forall>f. serialize_example (example_bye\<lparr>frame := f\<rparr>) = Inr (recs ! Suc 0))))"
proof -
  note run = write_data_hi_bye [of "\<lambda>n. 0"]
  from written_record_fields [OF run] obtain recs where
    r: "files (written_world [record_hi, record_bye]) ''out/train.tfrecord'' = Some recs"
       "length recs = length [example_hi, example_bye]"
    and a: "\<forall>k<length [example_hi, example_bye]. \<exists>ex s t d.
                 recs ! k = Serialized ex
                 \<and> dom ex = {''input'', ''value'', ''dialog_id'', ''turn''}
                 \<and> utf8_encode (src ([example_hi, example_bye] ! k)) = Inr s
                 \<and> ex ''input'' = Some (BytesList [s])
                 \<and> utf8_encode (tgt ([example_hi, example_bye] ! k)) = Inr t
                 \<and> ex ''value'' = Some (BytesList [t])
                 \<and> utf8_encode (dialog_id ([example_hi, example_bye] ! k)) = Inr d
                 \<and> ex ''dialog_id'' = Some (BytesList [d])
                 \<and> ex ''turn'' = Some (Int64List [word_of_int (turn ([example_hi, example_bye] ! k))])
                 \<and> sint (word_of_int (turn ([example_hi, example_bye] ! k)) :: 64 word)
                    = turn ([example_hi, example_bye] ! k)
                 \<and> (\<forall>f. serialize_example (([example_hi, example_bye] ! k)\<lparr>frame := f\<rparr>)
                        = Inr (recs ! k))"
    by (elim exE conjE)
  have k: "Suc 0 < length [example_hi, example_bye]" by simp
  have n: "[example_hi, example_bye] ! Suc 0 = example_bye" by simp
  have l: "length recs = 2" using r(2) by simp
  from a [rule_format, OF k] have b: "\<exists>ex s t d.
              recs ! Suc 0 = Serialized ex
              \<and> dom ex = {''input'', ''value'', ''dialog_id'', ''turn''}
              \<and> utf8_encode (src example_bye) = Inr s \<and> ex ''input'' = Some (BytesList [s])
              \<and> utf8_encode (tgt example_bye) = Inr t \<and> ex ''value'' = Some (BytesList [t])
              \<and> utf8_encode (dialog_id example_bye) = Inr d
              \<and> ex ''dialog_id'' = Some (BytesList [d])
              \<and> ex ''turn'' = Some (Int64List [word_of_int (turn example_bye)])
              \<and> sint (word_of_int (turn example_bye) :: 64 word) = turn example_bye
              \<and> (\<forall>f. serialize_example (example_bye\<lparr>frame := f\<rparr>) = Inr (recs ! Suc 0))"
    unfolding n .
  from r(1) l b have "\<exists>recs. files (written_world [record_hi, record_bye]) ''out/train.tfrecord'' = Some recs
        \<and> length recs = 2
        \<and> (\<exists>ex s t d.
              recs ! Suc 0 = Serialized ex
              \<and> dom ex = {''input'', ''value'', ''dialog_id'', ''turn''}
              \<and> utf8_encode (src example_bye) = Inr s \<and> ex ''input'' = Some (BytesList [s])
              \<and> utf8_encode (tgt example_bye) = Inr t \<and> ex ''value'' = Some (BytesList [t])
              \<and> utf8_encode (dialog_id example_bye) = Inr d
              \<and> ex ''dialog_id'' = Some (BytesList [d])
              \<and> ex ''turn'' = Some (Int64List [word_of_int (turn example_bye)])
              \<and> sint (word_of_int (turn example_bye) :: 64 word) = turn example_bye
              \<and> (\<forall>f. serialize_example (example_bye\<lparr>frame := f\<rparr>) = Inr (recs ! Suc 0)))"
    by (iprover intro: exI conjI)
  with run show ?thesis by (rule conjI)
qed

subsection \<open>Shuffled writing\<close>

text \<open>
  Claim C5. A successful \<open>write_data\<close> with \<^verbatim>\<open>shuffle=True\<close> writes a permutation
  of the input, whatever the random source draws: the file holds as many records as
  there are examples, and the multiset of what is read back is the multiset of the wire
  fields of the input. The order depends on the draws: on two examples, a source that
  draws 0 swaps them and a source that draws 1 keeps them.
\<close>

theorem write_data_shuffled_permutation:
  "(write_data mk rnd exs p True w = Inr (exs', w') \<longrightarrow>
      (\<exists>recs. files w' p = Some recs \<and> length recs = length exs
         \<and> mset (map read_record recs) = mset (map (\<lambda>e. Some (wire_fields e)) exs)
         \<and> map serialize_example exs' = map Inr recs \<and> mset exs' = mset exs))
   \<and> random_shuffle (\<lambda>n. 0) [a, b] = [b, a] \<and> random_shuffle (\<lambda>n. 1) [a, b] = [a, b]"
proof (intro conjI impI)
  assume a: "write_data mk rnd exs p True w = Inr (exs', w')"
  from write_data_Inr [OF a] have e: "exs' = random_shuffle rnd exs" by auto
  then have m: "mset exs' = mset exs" by (simp add: random_shuffle_mset)
  from write_data_records [OF a] obtain recs where
    r: "files w' p = Some recs" "map serialize_example exs' = map Inr recs"
    by blast
  have "length recs = length exs'" using r(2) by (metis length_map)
  then have l: "length recs = length exs" using e by (simp add: random_shuffle_length)
  have "map read_record recs = map (\<lambda>e. Some (wire_fields e)) exs'"
    using r(2) by (rule read_records_serialized)
  then have "mset (map read_record recs) = mset (map (\<lambda>e. Some (wire_fields e)) exs)"
    using m by (metis mset_map)
  then show "\<exists>recs. files w' p = Some recs \<and> length recs = length exs
         \<and> mset (map read_record recs) = mset (map (\<lambda>e. Some (wire_fields e)) exs)
         \<and> map serialize_example exs' = map Inr recs \<and> mset exs' = mset exs"
    using r l m by blast
qed (rule random_shuffle_two_swap random_shuffle_two_keep)+

theorem write_data_shuffled_permutation_witness:
  "write_data gfile_makedirs (\<lambda>n. 0) [example_hi, example_bye] ''out/train.tfrecord'' True
     empty_world
   = Inr ([example_bye, example_hi], written_world [record_bye, record_hi])
   \<and> files (written_world [record_bye, record_hi]) ''out/train.tfrecord''
      = Some [record_bye, record_hi]
   \<and> mset (map read_record [record_bye, record_hi])
      = mset [Some (wire_fields example_hi), Some (wire_fields example_bye)]
   \<and> mset [example_bye, example_hi] = mset [example_hi, example_bye]"
proof -
  have f: "files (written_world [record_bye, record_hi]) ''out/train.tfrecord''
           = Some [record_bye, record_hi]"
    by (simp add: written_world_def)
  note inst = write_data_shuffled_permutation [of gfile_makedirs "\<lambda>n. 0"
      "[example_hi, example_bye]" "''out/train.tfrecord''" empty_world
      "[example_bye, example_hi]" "written_world [record_bye, record_hi]"
      example_hi example_bye]
  from inst [THEN conjunct1, THEN mp, OF write_data_bye_hi] obtain recs where
    r: "files (written_world [record_bye, record_hi]) ''out/train.tfrecord'' = Some recs"
       "mset (map read_record recs)
        = mset (map (\<lambda>e. Some (wire_fields e)) [example_hi, example_bye])"
       "mset [example_bye, example_hi] = mset [example_hi, example_bye]"
    by blast
  from r(1) f have "recs = [record_bye, record_hi]" by simp
  with r(2) have "mset (map read_record [record_bye, record_hi])
      = mset [Some (wire_fields example_hi), Some (wire_fields example_bye)]"
    by simp
  with write_data_bye_hi f r(3) show ?thesis by blast
qed

subsection \<open>The caller's sequence\<close>

text \<open>
  Claim C6. \<open>write_data\<close> works on the caller's sequence itself. After a successful
  call with \<^verbatim>\<open>shuffle=True\<close> the sequence is \<^verbatim>\<open>random.shuffle\<close> of what it was,
  a permutation that can differ from it (a source that draws 0 swaps two examples);
  after a call with \<^verbatim>\<open>shuffle=False\<close> it is unchanged. The records in the file
  follow the sequence as the call leaves it.
\<close>

theorem write_data_shuffles_in_place:
  "(write_data mk rnd exs p sh w = Inr (exs', w') \<longrightarrow>
      (sh \<longrightarrow> exs' = random_shuffle rnd exs \<and> mset exs' = mset exs)
      \<and> (\<not> sh \<longrightarrow> exs' = exs)
      \<and> (\<exists>recs. files w' p = Some recs \<and> map serialize_example exs' = map Inr recs))
   \<and> random_shuffle (\<lambda>n. 0) [a, b] = [b, a]"
proof (intro conjI impI)
  assume a: "write_data mk rnd exs p sh w = Inr (exs', w')"
  show "\<exists>recs. files w' p = Some recs \<and> map serialize_example exs' = map Inr recs"
    using a by (rule write_data_records)
  show "exs' = exs" if "\<not> sh"
    using write_data_Inr [OF a] that by auto
  show "exs' = random_shuffle rnd exs" if sh
    using write_data_Inr [OF a] that by auto
  then show "mset exs' = mset exs" if sh
    using that by (simp add: random_shuffle_mset)
qed (rule random_shuffle_two_swap)

theorem write_data_shuffles_in_place_witness:
  "write_data gfile_makedirs (\<lambda>n. 0) [example_hi, example_bye] ''out/train.tfrecord'' True
     empty_world
   = Inr ([example_bye, example_hi], written_world [record_bye, record_hi])
   \<and> [example_bye, example_hi] = random_shuffle (\<lambda>n. 0) [example_hi, example_bye]
   \<and> [example_bye, example_hi] \<noteq> [example_hi, example_bye]
   \<and> files (written_world [record_bye, record_hi]) ''out/train.tfrecord''
      = Some [record_bye, record_hi]
   \<and> write_data gfile_makedirs (\<lambda>n. 0) [example_hi, example_bye] ''out/train.tfrecord'' False
        empty_world
      = Inr ([example_hi, example_bye], written_world [record_hi, record_bye])"
proof -
  have f: "files (written_world [record_bye, record_hi]) ''out/train.tfrecord''
           = Some [record_bye, record_hi]"
    by (simp add: written_world_def)
  note inst = write_data_shuffles_in_place [of gfile_makedirs "\<lambda>n. 0"
      "[example_hi, example_bye]" "''out/train.tfrecord''" True empty_world
      "[example_bye, example_hi]" "written_world [record_bye, record_hi]"
      example_hi example_bye]
  from inst [THEN conjunct1, THEN mp, OF write_data_bye_hi]
  have s: "[example_bye, example_hi] = random_shuffle (\<lambda>n. 0) [example_hi, example_bye]"
    by blast
  have "turn example_bye \<noteq> turn example_hi"
    by (simp add: example_hi_def example_bye_def)
  then have n: "[example_bye, example_hi] \<noteq> [example_hi, example_bye]"
    by auto
  from write_data_bye_hi s n f write_data_hi_bye [of "\<lambda>n. 0"] show ?thesis
    by blast
qed

subsection \<open>Directory creation before writing\<close>



subsection \<open>The empty sequence\<close>

text \<open>
  Claim C8. On the empty sequence \<open>write_data\<close> fails only where directory creation or
  the opening of the file fails; the examples play no part. When both succeed the call
  succeeds, with either value of \<^verbatim>\<open>shuffle\<close>: the file exists and holds no record,
  so reading it back gives the empty sequence, and one line is logged, with the base
  name of the path and the count 0.
\<close>

theorem write_data_empty:
  "write_data mk rnd [] p sh w =
     (case mk (dirname p) w of
        Inl err \<Rightarrow> Inl err
      | Inr w1 \<Rightarrow>
          (case TFRecordWriter p w1 of
             Inl err \<Rightarrow> Inl err
           | Inr w2 \<Rightarrow> Inr ([], logging_info (basename p) 0 w2)))
   \<and> (mk (dirname p) w = Inr w1 \<and> TFRecordWriter p w1 = Inr w2 \<longrightarrow>
        (\<exists>w'. write_data mk rnd [] p sh w = Inr ([], w')
           \<and> (\<exists>recs. files w' p = Some recs \<and> recs = [] \<and> map read_record recs = [])
           \<and> log w' = log w1 @ [(basename p, 0)]))"
proof (intro conjI impI)
  show "write_data mk rnd [] p sh w =
     (case mk (dirname p) w of
        Inl err \<Rightarrow> Inl err
      | Inr w1 \<Rightarrow>
          (case TFRecordWriter p w1 of
             Inl err \<Rightarrow> Inl err
           | Inr w2 \<Rightarrow> Inr ([], logging_info (basename p) 0 w2)))"
    by (simp add: write_data_def random_shuffle_Nil split: sum.splits)
next
  assume a: "mk (dirname p) w = Inr w1 \<and> TFRecordWriter p w1 = Inr w2"
  then have o: "TFRecordWriter p w1 = Inr w2" by simp
  have "write_data mk rnd [] p sh w = Inr ([], logging_info (basename p) 0 w2)"
    using a by (simp add: write_data_def random_shuffle_Nil)
  moreover have "files (logging_info (basename p) 0 w2) p = Some []"
    using TFRecordWriter_Inr [OF o] by (simp add: logging_info_def)
  moreover have "log (logging_info (basename p) 0 w2) = log w1 @ [(basename p, 0)]"
    using TFRecordWriter_Inr [OF o] by (simp add: logging_info_def)
  ultimately show "\<exists>w'. write_data mk rnd [] p sh w = Inr ([], w')
           \<and> (\<exists>recs. files w' p = Some recs \<and> recs = [] \<and> map read_record recs = [])
           \<and> log w' = log w1 @ [(basename p, 0)]"
    by simp
qed

theorem write_data_empty_witness:
  "gfile_makedirs (dirname ''out/train.tfrecord'') empty_world
     = Inr (empty_world\<lparr>dirs := {''out''}\<rparr>)
   \<and> TFRecordWriter ''out/train.tfrecord'' (empty_world\<lparr>dirs := {''out''}\<rparr>)
     = Inr \<lparr>dirs = {''out''}, files = [''out/train.tfrecord'' \<mapsto> []], log = []\<rparr>
   \<and> (\<exists>w'. write_data gfile_makedirs (\<lambda>n. 0) [] ''out/train.tfrecord'' True empty_world
              = Inr ([], w')
          \<and> files w' ''out/train.tfrecord'' = Some []
          \<and> log w' = [(''train.tfrecord'', 0)])"
proof -
  have m: "gfile_makedirs (dirname ''out/train.tfrecord'') empty_world
     = Inr (empty_world\<lparr>dirs := {''out''}\<rparr>)"
    by (simp add: dirname_out gfile_makedirs_out)
  note inst = write_data_empty [of gfile_makedirs "\<lambda>n. 0" "''out/train.tfrecord''" True
      empty_world "empty_world\<lparr>dirs := {''out''}\<rparr>"
      "\<lparr>dirs = {''out''}, files = [''out/train.tfrecord'' \<mapsto> []], log = []\<rparr>"]
  from inst [THEN conjunct2, THEN mp, OF conjI [OF m TFRecordWriter_out]] obtain w' where
    "write_data gfile_makedirs (\<lambda>n. 0) [] ''out/train.tfrecord'' True empty_world
       = Inr ([], w')"
    "files w' ''out/train.tfrecord'' = Some []"
    "log w' = log (empty_world\<lparr>dirs := {''out''}\<rparr>) @ [(basename ''out/train.tfrecord'', 0)]"
    by blast
  then have "\<exists>w'. write_data gfile_makedirs (\<lambda>n. 0) [] ''out/train.tfrecord'' True empty_world
              = Inr ([], w')
          \<and> files w' ''out/train.tfrecord'' = Some []
          \<and> log w' = [(''train.tfrecord'', 0)]"
    by (simp add: basename_out empty_world_def)
  with m TFRecordWriter_out show ?thesis by blast
qed

subsection \<open>Construction of an example\<close>

text \<open>
  Claim C9. Constructing a \<^verbatim>\<open>TextToTextExample\<close> fails exactly when one of
  \<^verbatim>\<open>src\<close>, \<^verbatim>\<open>tgt\<close>, \<^verbatim>\<open>dialog_id\<close>, \<^verbatim>\<open>turn\<close> is absent (whatever
  is given for \<^verbatim>\<open>frame\<close>); when the four are supplied it succeeds, the five fields
  read back the values supplied, and an omitted \<^verbatim>\<open>frame\<close> reads back 0.
\<close>

theorem TextToTextExample_init_fields:
  "((a_src = None \<or> a_tgt = None \<or> a_dialog_id = None \<or> a_turn = None) \<longleftrightarrow>
      TextToTextExample_init a_src a_tgt a_dialog_id a_turn a_frame = Inl TypeError)
   \<and> (\<exists>e. TextToTextExample_init (Some s) (Some t) (Some d) (Some n) None = Inr e
          \<and> src e = s \<and> tgt e = t \<and> dialog_id e = d \<and> turn e = n \<and> frame e = 0)
   \<and> (\<exists>e. TextToTextExample_init (Some s) (Some t) (Some d) (Some n) (Some f) = Inr e
          \<and> src e = s \<and> tgt e = t \<and> dialog_id e = d \<and> turn e = n \<and> frame e = f)"
  by (auto simp: TextToTextExample_init_def split: option.splits)

subsection \<open>A bare file name\<close>



end
